theory Spec2Isabelle
  imports Main "HOL-Library.Sublist"
begin

section \<open>The GitHub to Clubhouse importer (src/ghch.js)\<close>

text \<open>
  The script reads the issues of a GitHub repository, turns each one into a Clubhouse
  story and posts the stories in batches of ten. Everything the script does to the
  outside world (console lines, spinner lines, network requests) is recorded as a list
  of events in the order in which the script performs it. The outside world is a record
  of reply functions (\<open>env\<close>): what the GitHub listing endpoint, the Clubhouse project
  lookup and the Clubhouse bulk endpoint answer to a request.

  JavaScript values are modelled as follows: a property that may be \<open>undefined\<close> is an
  \<open>option\<close>; a thrown exception or rejected promise is the \<open>Inl\<close> of a sum; strings
  are \<open>string\<close>; the terminal styling of \<open>chalk\<close> is dropped from the text.
\<close>

subsection \<open>JavaScript strings and values\<close>

datatype js_error = JsError string string  \<comment> \<open>name and message of an Error object\<close>

fun error_message :: "js_error \<Rightarrow> string" where
  "error_message (JsError n m) = m"

text \<open>\<open>String(err)\<close>, that is \<open>Error.prototype.toString\<close>.\<close>

fun error_toString :: "js_error \<Rightarrow> string" where
  "error_toString (JsError n m) =
     (if n = [] then m else if m = [] then n else n @ '': '' @ m)"

text \<open>A value in a condition: \<open>undefined\<close> and the empty string are falsy.\<close>

fun falsy :: "string option \<Rightarrow> bool" where
  "falsy None = True"
| "falsy (Some s) = (s = [])"

text \<open>A value inside a template literal: \<open>undefined\<close> prints as the word.\<close>

fun template :: "string option \<Rightarrow> string" where
  "template None = ''undefined''"
| "template (Some s) = s"

definition digit :: "nat \<Rightarrow> char" where
  "digit d = ''0123456789'' ! d"

function show_nat :: "nat \<Rightarrow> string" where
  "show_nat n = (if n < 10 then [digit n] else show_nat (n div 10) @ [digit (n mod 10)])"
  by pat_completeness auto
termination
  by (relation "measure (\<lambda>n. n)") auto

declare show_nat.simps [simp del]

text \<open>The imported count inside a template literal: a number or \<open>undefined\<close>.\<close>

fun show_count :: "nat option \<Rightarrow> string" where
  "show_count None = ''undefined''"
| "show_count (Some n) = show_nat n"

text \<open>
  \<open>String.prototype.toLowerCase\<close> on the letters A to Z. Other characters are left
  as they are; no character outside A to Z lowercases to one of the letters of
  \<open>open\<close>, \<open>closed\<close> or \<open>all\<close>, the only words the result is compared with.
\<close>

definition lower_char :: "char \<Rightarrow> char" where
  "lower_char c =
     (case map_of (zip ''ABCDEFGHIJKLMNOPQRSTUVWXYZ'' ''abcdefghijklmnopqrstuvwxyz'') c of
        None \<Rightarrow> c
      | Some d \<Rightarrow> d)"

definition toLowerCase :: "string \<Rightarrow> string" where
  "toLowerCase s = map lower_char s"

text \<open>\<open>String.prototype.includes\<close>: the argument occurs as a contiguous substring.\<close>

fun includes_str :: "string \<Rightarrow> string \<Rightarrow> bool" where
  "includes_str [] sub = (sub = [])"
| "includes_str (c # cs) sub = (prefix sub (c # cs) \<or> includes_str cs sub)"

text \<open>\<open>String.prototype.split\<close> with a one-character separator.\<close>

fun split :: "char \<Rightarrow> string \<Rightarrow> string list" where
  "split sep [] = [ [] ]"
| "split sep (c # cs) =
     (if c = sep then [] # split sep cs
      else (case split sep cs of [] \<Rightarrow> [ [c] ] | w # ws \<Rightarrow> (c # w) # ws))"

text \<open>Array destructuring \<open>[a, b] = xs\<close>: a missing position is \<open>undefined\<close>.\<close>

fun at :: "'a list \<Rightarrow> nat \<Rightarrow> 'a option" where
  "at [] i = None"
| "at (x # xs) 0 = Some x"
| "at (x # xs) (Suc i) = at xs i"

subsection \<open>Data\<close>

record label =
  color :: string
  name :: string

datatype pull_request_ref = PullRequest string

record issue =
  html_url :: string
  created_at :: string
  updated_at :: string
  labels :: "label list"
  title :: string
  body :: "string option"
  pull_request :: "pull_request_ref option"

record story =
  story_created_at :: string
  story_updated_at :: string
  story_type :: string
  story_name :: string
  story_description :: string
  story_external_id :: string
  story_project_id :: nat
  story_labels :: "label list"

record project =
  project_id :: nat

record options =
  githubToken :: "string option"
  clubhouseToken :: "string option"
  clubhouseProject :: "string option"
  githubUrl :: "string option"
  state :: "string option"

record list_request =
  rq_owner :: "string option"
  rq_repo :: "string option"
  rq_per_page :: nat
  rq_state :: "string option"

subsection \<open>The outside world\<close>

text \<open>
  What the GitHub listing endpoint serves for a request, page after page: the last
  page, a page with more to come, or a failure (network, authorization, rate limit).
\<close>

datatype listing =
  Fails js_error
| Last_page "issue list"
| Next_page "issue list" listing

text \<open>
  What one call of the bulk endpoint comes to, in the three cases that
  \<open>createStories\<close> tells apart: \<open>fetch\<close> or \<open>res.json()\<close> throws; the response is not
  \<open>ok\<close> (status text and the JSON rendering of the body); the response is \<open>ok\<close> and
  its body is the array of created stories.
\<close>

datatype bulk_outcome =
  Transport_failure js_error
| Rejected_status string string
| Created "story list"

record env =
  listForRepo :: "string option \<Rightarrow> list_request \<Rightarrow> listing"
  getProject :: "string option \<Rightarrow> string option \<Rightarrow> js_error + project"
  bulk :: "string option \<Rightarrow> story list \<Rightarrow> bulk_outcome"

datatype event =
  Log_red string
| Log_blank
| Spinner_start string
| Spinner_succeed string
| Spinner_fail string
| Net_list_issues "string option" list_request nat
| Net_get_project "string option" "string option"
| Net_bulk_create "string option" "story list"

fun is_network :: "event \<Rightarrow> bool" where
  "is_network (Net_list_issues tok rq page) = True"
| "is_network (Net_get_project tok pid) = True"
| "is_network (Net_bulk_create tok stories) = True"
| "is_network e = False"

fun is_list_issues :: "event \<Rightarrow> bool" where
  "is_list_issues (Net_list_issues tok rq page) = True"
| "is_list_issues e = False"

fun is_get_project :: "event \<Rightarrow> bool" where
  "is_get_project (Net_get_project tok pid) = True"
| "is_get_project e = False"

fun is_bulk_create :: "event \<Rightarrow> bool" where
  "is_bulk_create (Net_bulk_create tok stories) = True"
| "is_bulk_create e = False"

fun is_log_red :: "event \<Rightarrow> bool" where
  "is_log_red (Log_red msg) = True"
| "is_log_red e = False"

text \<open>The bodies of the bulk-create requests of a trace, in the order of submission.\<close>

fun bulk_bodies :: "event list \<Rightarrow> story list list" where
  "bulk_bodies [] = []"
| "bulk_bodies (Net_bulk_create tok stories # es) = stories # bulk_bodies es"
| "bulk_bodies (e # es) = bulk_bodies es"

subsection \<open>Library functions the script calls\<close>

text \<open>
  \<open>octokit.paginate\<close> (library code): requests the pages in order, one request per
  page, until the server reports no further page; the result is the concatenation of
  all pages, and the first failing request rejects the whole call.
\<close>

fun paginate :: "string option \<Rightarrow> list_request \<Rightarrow> nat \<Rightarrow> listing \<Rightarrow> event list \<times> (js_error + issue list)" where
  "paginate tok rq page (Fails e) = ([Net_list_issues tok rq page], Inl e)"
| "paginate tok rq page (Last_page xs) = ([Net_list_issues tok rq page], Inr xs)"
| "paginate tok rq page (Next_page xs rest) =
     (case paginate tok rq (Suc page) rest of
        (t, Inl e) \<Rightarrow> (Net_list_issues tok rq page # t, Inl e)
      | (t, Inr ys) \<Rightarrow> (Net_list_issues tok rq page # t, Inr (xs @ ys)))"

text \<open>
  \<open>lodash.chunk\<close> (library code): slices of \<open>sz\<close> elements from the left, the last
  one shorter when the length is not a multiple; no slice for the empty array or a
  size below one.
\<close>

function chunk :: "'a list \<Rightarrow> nat \<Rightarrow> 'a list list" where
  "chunk xs sz =
     (if xs = [] \<or> sz < 1 then [] else take sz xs # chunk (drop sz xs) sz)"
  by pat_completeness auto
termination
  by (relation "measure (\<lambda>(xs, sz). length xs)") auto

declare chunk.simps [simp del]

text \<open>
  \<open>Promise.all\<close> over promises that are already started: fulfilled with all the
  values when every promise is fulfilled, rejected when one of them is rejected.
\<close>

fun promise_all :: "(js_error + 'a) list \<Rightarrow> js_error + 'a list" where
  "promise_all [] = Inr []"
| "promise_all (Inl e # ps) = Inl e"
| "promise_all (Inr v # ps) =
     (case promise_all ps of Inl e \<Rightarrow> Inl e | Inr vs \<Rightarrow> Inr (v # vs))"

subsection \<open>fetchGithubIssues (lines 10 to 21)\<close>

text \<open>
  \<open>options.githubUrl.split('/')\<close> raises a TypeError when the URL is \<open>undefined\<close>;
  inside the async function that is a rejected promise. The listing request carries
  \<open>options.state\<close> as it is. Items with a \<open>pull_request\<close> property are filtered out of
  the paginated result.
\<close>

definition octokitOptions :: "options \<Rightarrow> string \<Rightarrow> list_request" where
  "octokitOptions opts url =
     (let parts = split CHR ''/'' url
      in \<lparr>rq_owner = at parts 0, rq_repo = at parts 1, rq_per_page = 100, rq_state = state opts\<rparr>)"

definition fetchGithubIssues :: "env \<Rightarrow> options \<Rightarrow> event list \<times> (js_error + issue list)" where
  "fetchGithubIssues world opts =
     (case githubUrl opts of
        None \<Rightarrow> ([], Inl (JsError ''TypeError'' ''Cannot read property split of undefined''))
      | Some url \<Rightarrow>
          (case paginate (githubToken opts) (octokitOptions opts url) 1
                  (listForRepo world (githubToken opts) (octokitOptions opts url)) of
             (t, Inl e) \<Rightarrow> (t, Inl e)
           | (t, Inr data) \<Rightarrow> (t, Inr (filter (\<lambda>i. pull_request i = None) data))))"

subsection \<open>getStoryType and getStory (lines 23 to 45)\<close>

definition getStoryType :: "label list \<Rightarrow> string" where
  "getStoryType ls =
     (if find (\<lambda>l. includes_str (name l) ''bug'') ls \<noteq> None then ''bug''
      else if find (\<lambda>l. includes_str (name l) ''chore'') ls \<noteq> None then ''chore''
      else ''feature'')"

definition getStory :: "nat \<Rightarrow> issue \<Rightarrow> story" where
  "getStory pid i =
     \<lparr>story_created_at = created_at i,
      story_updated_at = updated_at i,
      story_type = getStoryType (labels i),
      story_name = title i,
      story_description = (if falsy (body i) then '''' else the (body i)),
      story_external_id = html_url i,
      story_project_id = pid,
      story_labels = map (\<lambda>l. \<lparr>color = ''#'' @ color l, name = name l\<rparr>) (labels i)\<rparr>"

subsection \<open>createStories (lines 48 to 64)\<close>

definition createStories :: "env \<Rightarrow> options \<Rightarrow> story list \<Rightarrow> event list \<times> (js_error + story list)" where
  "createStories world opts stories =
     ([Net_bulk_create (clubhouseToken opts) stories],
      (case bulk world (clubhouseToken opts) stories of
         Transport_failure e \<Rightarrow> Inl e
       | Rejected_status statusText rendered \<Rightarrow>
           Inl (JsError ''Error'' (statusText @ '':'' @ [CHR 0x0A] @ rendered))
       | Created added \<Rightarrow> Inr added))"

subsection \<open>importIssuesToClubhouse (lines 66 to 92)\<close>

text \<open>
  The function given to \<open>batches.map\<close> (lines 76 to 83). When \<open>createStories\<close> is
  fulfilled the handler adds \<open>added.length\<close> to the total. When it is rejected the
  \<open>catch\<close> block builds its message from \<open>issue.number\<close>; no \<open>issue\<close> is in scope
  there, so evaluating the template raises a ReferenceError before \<open>log\<close> is called,
  and the handler's promise is rejected with it.
\<close>

definition batch_handler :: "env \<Rightarrow> options \<Rightarrow> story list \<Rightarrow> event list \<times> (js_error + nat)" where
  "batch_handler world opts batch =
     (case createStories world opts batch of
        (t, Inr added) \<Rightarrow> (t, Inr (length added))
      | (t, Inl e) \<Rightarrow> (t, Inl (JsError ''ReferenceError'' ''issue is not defined'')))"

definition project_not_found :: "options \<Rightarrow> event" where
  "project_not_found opts =
     Log_red (''Clubhouse Project ID '' @ template (clubhouseProject opts) @ '' could not be found'')"

text \<open>
  Every handler runs up to its first \<open>await\<close> while \<open>batches.map\<close> builds the array,
  so all bulk requests are issued, in batch order, before any reply is looked at.
  The total starts at 0 and each fulfilled handler adds its count. A rejection of
  \<open>Promise.all\<close>, like a rejection of \<open>getProject\<close>, lands in the outer \<open>catch\<close>, which
  logs that the project could not be found and returns nothing (\<open>undefined\<close>).
\<close>

definition importIssuesToClubhouse :: "env \<Rightarrow> options \<Rightarrow> issue list \<Rightarrow> event list \<times> nat option" where
  "importIssuesToClubhouse world opts issues =
     (case getProject world (clubhouseToken opts) (clubhouseProject opts) of
        Inl error \<Rightarrow>
          ([Net_get_project (clubhouseToken opts) (clubhouseProject opts),
            project_not_found opts], None)
      | Inr proj \<Rightarrow>
          (let stories = map (getStory (project_id proj)) issues;
               batches = chunk stories 10;
               handled = map (batch_handler world opts) batches;
               requests = concat (map fst handled)
           in (case promise_all (map snd handled) of
                 Inl error \<Rightarrow>
                   (Net_get_project (clubhouseToken opts) (clubhouseProject opts) # requests
                      @ [project_not_found opts], None)
               | Inr counts \<Rightarrow>
                   (Net_get_project (clubhouseToken opts) (clubhouseProject opts) # requests,
                    Some (foldl (+) 0 counts)))))"

subsection \<open>validateOptions (lines 94 to 131)\<close>

datatype validation = Passed | Exited nat | Thrown js_error

text \<open>One \<open>if\<close> of the function: a violated rule sets \<open>hasError\<close> and logs its line.\<close>

definition check :: "bool \<Rightarrow> string \<Rightarrow> bool \<times> event list \<Rightarrow> bool \<times> event list" where
  "check violated msg st =
     (if violated then (True, snd st @ [Log_red msg]) else st)"

definition recognized_states :: "string list" where
  "recognized_states = [''open'', ''closed'', ''all'']"

text \<open>
  \<open>options.state.toLowerCase()\<close> raises a TypeError when the state is \<open>undefined\<close>,
  after the four lines before it have been logged. \<open>process.exit(1)\<close> ends the
  process.
\<close>

definition validateOptions :: "options \<Rightarrow> event list \<times> validation" where
  "validateOptions opts =
     (let s0 = (False, []);
          s1 = check (falsy (githubToken opts)) ''Usage: --github-token arg is required'' s0;
          s2 = check (falsy (clubhouseToken opts)) ''Usage: --clubhouse-token arg is required'' s1;
          s3 = check (falsy (clubhouseProject opts)) ''Usage: --clubhouse-project arg is required'' s2;
          s4 = check (falsy (githubUrl opts)) ''Usage: --github-url arg is required'' s3
      in (case state opts of
            None \<Rightarrow>
              (snd s4, Thrown (JsError ''TypeError'' ''Cannot read property toLowerCase of undefined''))
          | Some s \<Rightarrow>
              (let s5 = check (toLowerCase s \<notin> set recognized_states)
                          ''Usage: --state must be one of open | closed | all'' s4
               in if fst s5 then (snd s5 @ [Log_blank], Exited 1) else (snd s5, Passed))))"

subsection \<open>githubClubhouseImport (lines 133 to 150)\<close>

datatype run_result = Completed | Process_exit nat | Rejected js_error

definition githubClubhouseImport :: "env \<Rightarrow> options \<Rightarrow> event list \<times> run_result" where
  "githubClubhouseImport world opts =
     (case validateOptions opts of
        (out, Exited code) \<Rightarrow> (out, Process_exit code)
      | (out, Thrown e) \<Rightarrow> (out, Rejected e)
      | (out, Passed) \<Rightarrow>
          (case fetchGithubIssues world opts of
             (t, Inl err) \<Rightarrow>
               (out @ Spinner_start ''Retrieving issues from Github'' # t
                  @ [Spinner_fail (''Failed to fetch issues from '' @ template (githubUrl opts) @ [CHR 0x0A]),
                     Log_red (error_toString err)],
                Completed)
           | (t, Inr issues) \<Rightarrow>
               (case importIssuesToClubhouse world opts issues of
                  (t', issuesImported) \<Rightarrow>
                    (out @ Spinner_start ''Retrieving issues from Github'' # t
                       @ Spinner_succeed (''Retrieved '' @ show_nat (length issues) @ '' issues from Github'')
                       # Spinner_start ''Importing issues into Clubhouse'' # t'
                       @ [Spinner_succeed (''Imported '' @ show_count issuesImported @ '' issues into Clubhouse'')],
                     Completed))))"

subsection \<open>Reading a trace\<close>

text \<open>The state filter carried by each listing request of a trace.\<close>

fun list_states :: "event list \<Rightarrow> string option list" where
  "list_states [] = []"
| "list_states (Net_list_issues tok rq page # es) = rq_state rq # list_states es"
| "list_states (e # es) = list_states es"

text \<open>The first failure among the pages of a listing, when there is one.\<close>

fun listing_error :: "listing \<Rightarrow> js_error option" where
  "listing_error (Fails e) = Some e"
| "listing_error (Last_page xs) = None"
| "listing_error (Next_page xs rest) = listing_error rest"

subsection \<open>The configuration rules in the words of the specification\<close>

text \<open>
  The four required settings must be present and non-empty, and the state filter must
  be one of the three recognized values, compared without regard to case.
\<close>

datatype rule =
  Source_credential_required
| Destination_credential_required
| Destination_project_required
| Source_repository_required
| State_not_recognized

fun rule_message :: "rule \<Rightarrow> string" where
  "rule_message Source_credential_required = ''Usage: --github-token arg is required''"
| "rule_message Destination_credential_required = ''Usage: --clubhouse-token arg is required''"
| "rule_message Destination_project_required = ''Usage: --clubhouse-project arg is required''"
| "rule_message Source_repository_required = ''Usage: --github-url arg is required''"
| "rule_message State_not_recognized = ''Usage: --state must be one of open | closed | all''"

definition missing :: "string option \<Rightarrow> bool" where
  "missing v = (v = None \<or> v = Some [])"

definition violated_rules :: "options \<Rightarrow> rule list" where
  "violated_rules opts =
     (if missing (githubToken opts) then [Source_credential_required] else [])
     @ (if missing (clubhouseToken opts) then [Destination_credential_required] else [])
     @ (if missing (clubhouseProject opts) then [Destination_project_required] else [])
     @ (if missing (githubUrl opts) then [Source_repository_required] else [])
     @ (if map_option toLowerCase (state opts) \<in> {Some ''open'', Some ''closed'', Some ''all''}
        then [] else [State_not_recognized])"

subsection \<open>Sample inputs\<close>

definition sample_options :: options where
  "sample_options =
     \<lparr>githubToken = Some ''gh-token'', clubhouseToken = Some ''ch-token'',
      clubhouseProject = Some ''42'', githubUrl = Some ''takeshape/importer'',
      state = Some ''open''\<rparr>"

definition sample_issue :: "nat \<Rightarrow> issue" where
  "sample_issue n =
     \<lparr>html_url = ''https://github.com/takeshape/importer/issues/'' @ show_nat n,
      created_at = ''2019-05-01T10:00:00Z'', updated_at = ''2019-05-02T11:30:00Z'',
      labels = [], title = ''Issue '' @ show_nat n, body = None, pull_request = None\<rparr>"

definition sample_pull_request :: "nat \<Rightarrow> issue" where
  "sample_pull_request n =
     (sample_issue n)\<lparr>pull_request :=
        Some (PullRequest (''https://github.com/takeshape/importer/pull/'' @ show_nat n))\<rparr>"

text \<open>
  A world in which everything works: one page with two issues and a pull request,
  project 42 exists, and the bulk endpoint creates every story it is sent.
\<close>

definition sample_world :: env where
  "sample_world =
     \<lparr>listForRepo = (\<lambda>tok rq. Last_page [sample_issue 1, sample_pull_request 2, sample_issue 3]),
      getProject = (\<lambda>tok pid. if pid = Some ''42'' then Inr \<lparr>project_id = 42\<rparr>
                                else Inl (JsError ''Error'' ''Not Found'')),
      bulk = (\<lambda>tok stories. Created stories)\<rparr>"

text \<open>The same world, but the bulk endpoint rejects the batch that holds issue 11.\<close>

definition world_rejecting_issue_11 :: env where
  "world_rejecting_issue_11 =
     sample_world\<lparr>bulk := (\<lambda>tok stories.
        if ''Issue 11'' \<in> set (map story_name stories)
        then Rejected_status ''Unprocessable Entity'' ''{}''
        else Created stories)\<rparr>"

text \<open>The same world, but the second page of the listing fails.\<close>

definition world_failing_listing :: env where
  "world_failing_listing =
     sample_world\<lparr>listForRepo := (\<lambda>tok rq.
        Next_page [sample_issue 1] (Fails (JsError ''HttpError'' ''Bad credentials'')))\<rparr>"

definition issues25 :: "issue list" where
  "issues25 =
     map sample_issue
       [1, 2, 3, 4, 5, 6, 7, 8, 9, 10, 11, 12, 13, 14, 15, 16, 17, 18, 19, 20, 21, 22, 23, 24, 25]"

text \<open>Configurations that differ from the sample in one setting.\<close>

definition options_without_project :: options where
  "options_without_project = sample_options\<lparr>clubhouseProject := None\<rparr>"

definition options_without_state :: options where
  "options_without_state = sample_options\<lparr>state := None\<rparr>"

definition options_without_token_and_state :: options where
  "options_without_token_and_state = sample_options\<lparr>githubToken := None, state := None\<rparr>"

definition options_unknown_project :: options where
  "options_unknown_project = sample_options\<lparr>clubhouseProject := Some ''999''\<rparr>"

definition options_upper_state :: options where
  "options_upper_state = sample_options\<lparr>state := Some ''OPEN''\<rparr>"

text \<open>An issue with a body and one red label.\<close>

definition labelled_issue :: issue where
  "labelled_issue =
     (sample_issue 7)\<lparr>labels := [\<lparr>color = ''ff0000'', name = ''bug''\<rparr>],
                       body := Some ''Steps to reproduce''\<rparr>"

section \<open>Properties\<close>

subsection \<open>Strings and library functions\<close>

lemma includes_str_sublist: "includes_str s sub \<longleftrightarrow> sublist sub s"
  by (induction s) (auto simp: sublist_Cons_right)

lemma chunk_concat: "0 < n \<Longrightarrow> concat (chunk xs n) = xs"
proof (induction xs n rule: chunk.induct)
  case (1 xs sz)
  show ?case
  proof (cases "xs = []")
    case True
    then show ?thesis by (simp add: chunk.simps)
  next
    case False
    with 1 have "concat (chunk (drop sz xs) sz) = drop sz xs" by simp
    with False 1(2) show ?thesis by (subst chunk.simps) simp
  qed
qed

lemma chunk_sizes: "b \<in> set (chunk xs n) \<Longrightarrow> b \<noteq> [] \<and> length b \<le> n"
proof (induction xs n rule: chunk.induct)
  case (1 xs sz)
  show ?case
  proof (cases "xs = [] \<or> sz < 1")
    case True
    with 1(2) show ?thesis by (simp add: chunk.simps)
  next
    case False
    from 1(2) False have "b = take sz xs \<or> b \<in> set (chunk (drop sz xs) sz)"
      by (subst (asm) chunk.simps) auto
    then show ?thesis
    proof
      assume "b = take sz xs"
      with False show ?thesis by auto
    next
      assume "b \<in> set (chunk (drop sz xs) sz)"
      with 1(1) False show ?thesis by blast
    qed
  qed
qed

lemma chunk_nth: "0 < n \<Longrightarrow> i < length (chunk xs n) \<Longrightarrow> chunk xs n ! i = take n (drop (i * n) xs)"
proof (induction xs n arbitrary: i rule: chunk.induct)
  case (1 xs sz)
  from 1(3) have ne: "\<not> (xs = [] \<or> sz < 1)" by (auto simp: chunk.simps split: if_splits)
  then have unf: "chunk xs sz = take sz xs # chunk (drop sz xs) sz" by (subst chunk.simps) simp
  show ?case
  proof (cases i)
    case 0
    then show ?thesis by (simp add: unf)
  next
    case (Suc j)
    with 1(3) unf have "j < length (chunk (drop sz xs) sz)" by simp
    with 1(1)[OF ne 1(2)] have "chunk (drop sz xs) sz ! j = take sz (drop (j * sz) (drop sz xs))" by simp
    with Suc show ?thesis by (simp add: unf add.commute)
  qed
qed

lemma chunk_Nil: "chunk [] n = []"
  by (simp add: chunk.simps)

subsection \<open>Traces\<close>

lemma bulk_bodies_append: "bulk_bodies (xs @ ys) = bulk_bodies xs @ bulk_bodies ys"
  by (induction xs rule: bulk_bodies.induct) simp_all

lemma bulk_bodies_requests: "bulk_bodies (map (Net_bulk_create tok) bs) = bs"
  by (induction bs) simp_all

lemma list_states_append: "list_states (xs @ ys) = list_states xs @ list_states ys"
  by (induction xs rule: list_states.induct) simp_all

lemma list_states_requests: "list_states (map (Net_bulk_create tok) bs) = []"
  by (induction bs) simp_all

lemma paginate_events:
  "paginate tok rq n l = (t, r) \<Longrightarrow> e \<in> set t \<Longrightarrow> \<exists>page. e = Net_list_issues tok rq page"
  by (induction l arbitrary: n t r e) (auto split: prod.splits sum.splits)

lemma paginate_nonempty: "paginate tok rq n l = (t, r) \<Longrightarrow> t \<noteq> []"
  by (cases l) (auto split: prod.splits sum.splits)

lemma paginate_list_states:
  "paginate tok rq n l = (t, r) \<Longrightarrow> list_states t = replicate (length t) (rq_state rq)"
  by (induction l arbitrary: n t r) (auto split: prod.splits sum.splits)

subsection \<open>Promise.all and the running total\<close>

lemma foldl_plus: "foldl (+) (a::nat) xs = a + sum_list xs"
  by (induction xs arbitrary: a) simp_all

lemma promise_all_values: "promise_all (map Inr vs) = Inr vs"
  by (induction vs) simp_all

lemma promise_all_Inl:
  "(\<exists>e. promise_all rs = Inl e) \<longleftrightarrow> (\<exists>r\<in>set rs. isl r)"
  by (induction rs rule: promise_all.induct) (auto split: sum.splits)

lemma batch_handler_fst: "fst (batch_handler world opts b) = [Net_bulk_create (clubhouseToken opts) b]"
  by (simp add: batch_handler_def createStories_def split: bulk_outcome.splits)

lemma batch_handler_requests:
  "concat (map (fst \<circ> batch_handler world opts) bs) = map (Net_bulk_create (clubhouseToken opts)) bs"
  by (induction bs) (simp_all add: batch_handler_fst)

lemma batch_handler_isl:
  "isl (snd (batch_handler world opts b)) \<longleftrightarrow> (\<forall>added. bulk world (clubhouseToken opts) b \<noteq> Created added)"
  by (simp add: batch_handler_def createStories_def split: bulk_outcome.splits)

lemma importIssues_unresolved:
  assumes "getProject world (clubhouseToken opts) (clubhouseProject opts) = Inl e"
  shows "importIssuesToClubhouse world opts issues =
           ([Net_get_project (clubhouseToken opts) (clubhouseProject opts), project_not_found opts], None)"
  using assms by (simp add: importIssuesToClubhouse_def)

lemma importIssues_requests:
  assumes "getProject world (clubhouseToken opts) (clubhouseProject opts) = Inr p"
  shows "\<exists>rest. fst (importIssuesToClubhouse world opts issues) =
           Net_get_project (clubhouseToken opts) (clubhouseProject opts)
             # map (Net_bulk_create (clubhouseToken opts)) (chunk (map (getStory (project_id p)) issues) 10)
             @ rest
           \<and> (rest = [] \<or> rest = [project_not_found opts])"
  using assms
  by (simp add: importIssuesToClubhouse_def Let_def batch_handler_requests split: sum.splits)

lemma importIssues_bulk_bodies:
  assumes "getProject world (clubhouseToken opts) (clubhouseProject opts) = Inr p"
  shows "bulk_bodies (fst (importIssuesToClubhouse world opts issues)) =
           chunk (map (getStory (project_id p)) issues) 10"
proof -
  from importIssues_requests [OF assms] obtain rest where
    t: "fst (importIssuesToClubhouse world opts issues) =
           Net_get_project (clubhouseToken opts) (clubhouseProject opts)
             # map (Net_bulk_create (clubhouseToken opts)) (chunk (map (getStory (project_id p)) issues) 10)
             @ rest"
    and r: "rest = [] \<or> rest = [project_not_found opts]" by blast
  from r have "bulk_bodies rest = []" by (auto simp: project_not_found_def)
  with t show ?thesis by (simp add: bulk_bodies_append bulk_bodies_requests)
qed

lemma importIssues_batch_failure:
  assumes "getProject world (clubhouseToken opts) (clubhouseProject opts) = Inr p"
    and "b \<in> set (chunk (map (getStory (project_id p)) issues) 10)"
    and "\<forall>added. bulk world (clubhouseToken opts) b \<noteq> Created added"
  shows "importIssuesToClubhouse world opts issues =
           (Net_get_project (clubhouseToken opts) (clubhouseProject opts)
              # map (Net_bulk_create (clubhouseToken opts)) (chunk (map (getStory (project_id p)) issues) 10)
              @ [project_not_found opts], None)"
proof -
  let ?bs = "chunk (map (getStory (project_id p)) issues) 10"
  from assms(2,3) have "\<exists>r\<in>set (map (snd \<circ> batch_handler world opts) ?bs). isl r"
    by (auto simp: batch_handler_isl)
  then obtain e where "promise_all (map (snd \<circ> batch_handler world opts) ?bs) = Inl e"
    using promise_all_Inl by blast
  with assms(1) show ?thesis
    by (simp add: importIssuesToClubhouse_def Let_def batch_handler_requests)
qed

lemma importIssues_all_created:
  assumes "getProject world (clubhouseToken opts) (clubhouseProject opts) = Inr p"
    and "\<forall>b\<in>set (chunk (map (getStory (project_id p)) issues) 10).
           \<exists>added. bulk world (clubhouseToken opts) b = Created added"
  shows "importIssuesToClubhouse world opts issues =
           (Net_get_project (clubhouseToken opts) (clubhouseProject opts)
              # map (Net_bulk_create (clubhouseToken opts)) (chunk (map (getStory (project_id p)) issues) 10),
            Some (sum_list (map (\<lambda>b. case bulk world (clubhouseToken opts) b of Created added \<Rightarrow> length added | _ \<Rightarrow> 0)
                    (chunk (map (getStory (project_id p)) issues) 10))))"
proof -
  let ?bs = "chunk (map (getStory (project_id p)) issues) 10"
  let ?count = "\<lambda>b. case bulk world (clubhouseToken opts) b of Created added \<Rightarrow> length added | _ \<Rightarrow> 0"
  have "map (snd \<circ> batch_handler world opts) ?bs = map Inr (map ?count ?bs)"
    using assms(2) by (auto simp: batch_handler_def createStories_def)
  then have "promise_all (map (snd \<circ> batch_handler world opts) ?bs) = Inr (map ?count ?bs)"
    by (simp only: promise_all_values)
  with assms(1) show ?thesis
    by (simp add: importIssuesToClubhouse_def Let_def batch_handler_requests foldl_plus)
qed

subsection \<open>The fetcher and the orchestrator\<close>

lemma fetch_events:
  assumes "fetchGithubIssues world opts = (t, r)" and "e \<in> set t"
  shows "\<exists>tok rq page. e = Net_list_issues tok rq page \<and> rq_state rq = state opts"
proof (cases "githubUrl opts")
  case None
  with assms show ?thesis by (simp add: fetchGithubIssues_def)
next
  case (Some url)
  obtain t' r' where p: "paginate (githubToken opts) (octokitOptions opts url) 1
      (listForRepo world (githubToken opts) (octokitOptions opts url)) = (t', r')"
    by (cases "paginate (githubToken opts) (octokitOptions opts url) 1
      (listForRepo world (githubToken opts) (octokitOptions opts url))") blast
  with assms(1) Some have "t = t'"
    by (auto simp: fetchGithubIssues_def split: sum.splits)
  with paginate_events [OF p] assms(2)
  obtain page where "e = Net_list_issues (githubToken opts) (octokitOptions opts url) page" by blast
  then show ?thesis by (simp add: octokitOptions_def Let_def)
qed

lemma fetch_nonempty:
  assumes "fetchGithubIssues world opts = (t, r)" and "githubUrl opts = Some url"
  shows "t \<noteq> []"
proof -
  obtain t' r' where p: "paginate (githubToken opts) (octokitOptions opts url) 1
      (listForRepo world (githubToken opts) (octokitOptions opts url)) = (t', r')"
    by (cases "paginate (githubToken opts) (octokitOptions opts url) 1
      (listForRepo world (githubToken opts) (octokitOptions opts url))") blast
  with assms have "t = t'"
    by (auto simp: fetchGithubIssues_def split: sum.splits)
  with paginate_nonempty [OF p] show ?thesis by simp
qed

lemma fetch_filters:
  assumes "fetchGithubIssues world opts = (t, r)"
  shows "filter is_network t = t" and "filter is_list_issues t = t" and "filter is_log_red t = []"
    and "filter is_bulk_create t = []" and "filter is_get_project t = []"
proof -
  have ev: "\<forall>e\<in>set t. \<exists>tok rq page. e = Net_list_issues tok rq page"
    using fetch_events [OF assms] by blast
  show "filter is_network t = t" using ev by (fastforce simp: filter_id_conv)
  show "filter is_list_issues t = t" using ev by (fastforce simp: filter_id_conv)
  show "filter is_log_red t = []" using ev by (fastforce simp: filter_empty_conv)
  show "filter is_bulk_create t = []" using ev by (fastforce simp: filter_empty_conv)
  show "filter is_get_project t = []" using ev by (fastforce simp: filter_empty_conv)
qed

lemma fetch_list_states:
  assumes "fetchGithubIssues world opts = (t, r)"
  shows "list_states t = replicate (length t) (state opts)"
  using fetch_events [OF assms]
proof (induction t)
  case Nil
  then show ?case by simp
next
  case (Cons e t)
  from Cons.prems [of e] obtain tok rq page where "e = Net_list_issues tok rq page" "rq_state rq = state opts"
    by auto
  moreover from Cons have "list_states t = replicate (length t) (state opts)" by simp
  ultimately show ?case by simp
qed

lemma import_list_states: "list_states (fst (importIssuesToClubhouse world opts issues)) = []"
proof (cases "getProject world (clubhouseToken opts) (clubhouseProject opts)")
  case (Inl e)
  then show ?thesis by (simp add: importIssues_unresolved project_not_found_def)
next
  case (Inr p)
  from importIssues_requests [OF Inr, of issues] show ?thesis
    by (auto simp: list_states_append list_states_requests project_not_found_def)
qed

lemma error_toString_message: "sublist (error_message err) (error_toString err)"
proof (cases err)
  case (JsError n m)
  have "sublist m ((n @ '': '') @ m)" by (rule sublist_append_leftI)
  with JsError show ?thesis by simp
qed

lemma paginate_listing_error:
  "paginate tok rq n l = (t, r) \<Longrightarrow> listing_error l = Some e \<Longrightarrow> r = Inl e"
  by (induction l arbitrary: n t r) (auto split: prod.splits sum.splits)

lemma fetch_bulk_bodies:
  assumes "fetchGithubIssues world opts = (t, r)"
  shows "bulk_bodies t = []"
  using fetch_events [OF assms]
proof (induction t)
  case Nil
  then show ?case by simp
next
  case (Cons e t)
  from Cons.prems [of e] obtain tok rq page where "e = Net_list_issues tok rq page" by auto
  moreover from Cons have "bulk_bodies t = []" by simp
  ultimately show ?case by simp
qed

subsection \<open>Validation\<close>

lemma falsy_missing: "falsy v = missing v"
  by (cases v) (simp_all add: missing_def)

lemma check_eq: "check v m st = (fst st \<or> v, snd st @ (if v then [Log_red m] else []))"
  by (cases st) (simp add: check_def)

lemma validateOptions_rules:
  assumes "state opts = Some s"
  shows "validateOptions opts =
           (if violated_rules opts = [] then ([], Passed)
            else (map (\<lambda>r. Log_red (rule_message r)) (violated_rules opts) @ [Log_blank], Exited 1))"
  using assms
  by (simp add: validateOptions_def violated_rules_def Let_def check_eq falsy_missing
        recognized_states_def)

lemma validateOptions_Passed:
  assumes "validateOptions opts = (out, Passed)"
  shows "out = [] \<and> (\<exists>s. state opts = Some s \<and> toLowerCase s \<in> set recognized_states)
         \<and> (\<exists>url. githubUrl opts = Some url \<and> url \<noteq> [])"
proof (cases "state opts")
  case None
  with assms show ?thesis by (simp add: validateOptions_def Let_def)
next
  case (Some s)
  from assms validateOptions_rules [OF Some] have v: "violated_rules opts = []" and "out = []"
    by (auto split: if_splits)
  from v Some have "toLowerCase s \<in> set recognized_states" "\<not> missing (githubUrl opts)"
    by (auto simp: violated_rules_def recognized_states_def split: if_splits)
  with Some \<open>out = []\<close> show ?thesis by (cases "githubUrl opts") (auto simp: missing_def)
qed

lemma lower_open: "toLowerCase ''open'' = ''open''"
  by (simp add: toLowerCase_def lower_char_def)

subsection \<open>Claims about the mapper\<close>

text \<open>
  Claim C3, as the claim states it, fails: the match is case-sensitive. The label name
  \<open>Bug\<close> contains \<open>bug\<close> when case is ignored, and the category is still
  \<open>feature\<close>.
\<close>

theorem getStoryType_case_counterexample:
  "includes_str (toLowerCase ''Bug'') ''bug'' \<and> getStoryType [\<lparr>color = ''d73a4a'', name = ''Bug''\<rparr>] = ''feature''"
  by (simp add: getStoryType_def toLowerCase_def lower_char_def)

text \<open>
  Claim C3, amended: for every sequence of labels the category is computed by
  case-sensitive substring match in priority order. If some label name contains
  \<open>bug\<close> the category is \<open>bug\<close>; otherwise, if some label name contains
  \<open>chore\<close> the category is \<open>chore\<close>; otherwise, also with no label at all, it is
  \<open>feature\<close>.
\<close>

theorem getStoryType_substring:
  "getStoryType ls =
     (if \<exists>l\<in>set ls. sublist ''bug'' (name l) then ''bug''
      else if \<exists>l\<in>set ls. sublist ''chore'' (name l) then ''chore''
      else ''feature'')"
  unfolding getStoryType_def by (auto simp: find_None_iff includes_str_sublist)

theorem getStoryType_substring_witness:
  "getStoryType [\<lparr>color = ''d73a4a'', name = ''Bug''\<rparr>, \<lparr>color = ''fef2c0'', name = ''a chore''\<rparr>] = ''chore''"
  using getStoryType_substring [of "[\<lparr>color = ''d73a4a'', name = ''Bug''\<rparr>, \<lparr>color = ''fef2c0'', name = ''a chore''\<rparr>]"]
  by (simp add: includes_str_sublist [symmetric])

text \<open>
  Claim C7: for every source issue and project id the mapper (a function, so the same
  arguments always give the same record) produces a record whose name is the issue
  title, whose description is the issue body, or the empty string when the body is
  absent, whose external id is the issue URL, whose two timestamps are those of the
  issue, and whose labels are the issue's labels in order, each with the same name and
  its color prefixed with \<open>#\<close>.
\<close>

theorem getStory_fields:
  "story_name (getStory pid i) = title i
   \<and> story_description (getStory pid i) = (case body i of None \<Rightarrow> [] | Some text \<Rightarrow> text)
   \<and> story_external_id (getStory pid i) = html_url i
   \<and> story_created_at (getStory pid i) = created_at i
   \<and> story_updated_at (getStory pid i) = updated_at i
   \<and> story_project_id (getStory pid i) = pid
   \<and> story_type (getStory pid i) = getStoryType (labels i)
   \<and> map name (story_labels (getStory pid i)) = map name (labels i)
   \<and> map color (story_labels (getStory pid i)) = map (\<lambda>l. CHR ''#'' # color l) (labels i)"
  by (cases "body i") (simp_all add: getStory_def comp_def)

theorem getStory_fields_witness:
  "story_description (getStory 42 labelled_issue) = ''Steps to reproduce''
   \<and> story_description (getStory 42 (sample_issue 7)) = []
   \<and> map color (story_labels (getStory 42 labelled_issue)) = [''#ff0000'']
   \<and> map name (story_labels (getStory 42 labelled_issue)) = [''bug'']"
  using getStory_fields [of 42 labelled_issue] getStory_fields [of 42 "sample_issue 7"]
  by (simp add: labelled_issue_def sample_issue_def)

subsection \<open>Claims about validation\<close>

text \<open>
  What validation does when the state filter is a string and at least one rule is
  violated (a required setting missing or empty, or a state that is none of the three
  recognized values): every violated rule is reported by one message of its own, in the
  order of the checks, the process exits with status 1, and the run holds no network
  request. When the destination project identifier is the only violation, exactly one
  message is reported.
\<close>

lemma validateOptions_reports_all:
  assumes "state opts = Some s" and "violated_rules opts \<noteq> []"
  shows "validateOptions opts =
           (map (\<lambda>r. Log_red (rule_message r)) (violated_rules opts) @ [Log_blank], Exited 1)
         \<and> githubClubhouseImport world opts =
           (map (\<lambda>r. Log_red (rule_message r)) (violated_rules opts) @ [Log_blank], Process_exit 1)
         \<and> length (filter is_log_red (fst (githubClubhouseImport world opts))) = length (violated_rules opts)
         \<and> filter is_network (fst (githubClubhouseImport world opts)) = []
         \<and> (violated_rules opts = [Destination_project_required] \<longrightarrow>
              fst (githubClubhouseImport world opts) =
                [Log_red ''Usage: --clubhouse-project arg is required'', Log_blank])"
proof -
  let ?msgs = "map (\<lambda>r. Log_red (rule_message r)) (violated_rules opts)"
  from assms have v: "validateOptions opts = (?msgs @ [Log_blank], Exited 1)"
    by (simp add: validateOptions_rules)
  then have r: "githubClubhouseImport world opts = (?msgs @ [Log_blank], Process_exit 1)"
    by (simp add: githubClubhouseImport_def)
  have red: "filter is_log_red ?msgs = ?msgs" by (induction "violated_rules opts") (simp_all add: filter_map comp_def)
  have net: "filter is_network ?msgs = []" by (simp add: filter_map comp_def)
  from v r red net show ?thesis by auto
qed

lemma validateOptions_reports_all_example:
  "state options_without_project = Some ''open''
   \<and> violated_rules options_without_project = [Destination_project_required]
   \<and> githubClubhouseImport sample_world options_without_project =
       ([Log_red ''Usage: --clubhouse-project arg is required'', Log_blank], Process_exit 1)"
proof -
  have s: "state options_without_project = Some ''open''"
    by (simp add: options_without_project_def sample_options_def)
  have v: "violated_rules options_without_project = [Destination_project_required]"
    by (simp add: violated_rules_def options_without_project_def sample_options_def missing_def lower_open)
  then have ne: "violated_rules options_without_project \<noteq> []" by simp
  from validateOptions_reports_all [OF s ne, of sample_world] s v show ?thesis by simp
qed

text \<open>
  Claim C4 fails on the code when the state filter is missing. The four required
  settings are tested with \<open>!options.x\<close>, which copes with \<open>undefined\<close>, but
  line 118 calls \<open>options.state.toLowerCase()\<close> unguarded. With only the state
  missing the rule on the state is violated, yet the run logs nothing and ends in a
  TypeError instead of \<open>process.exit(1)\<close>. With the source credential and the state
  missing two rules are violated, one message is logged, and the run again ends in the
  TypeError.
\<close>

theorem validateOptions_missing_state:
  "violated_rules options_without_state = [State_not_recognized]
   \<and> githubClubhouseImport sample_world options_without_state =
       ([], Rejected (JsError ''TypeError'' ''Cannot read property toLowerCase of undefined''))
   \<and> violated_rules options_without_token_and_state = [Source_credential_required, State_not_recognized]
   \<and> githubClubhouseImport sample_world options_without_token_and_state =
       ([Log_red ''Usage: --github-token arg is required''],
        Rejected (JsError ''TypeError'' ''Cannot read property toLowerCase of undefined''))"
  by (simp add: violated_rules_def missing_def githubClubhouseImport_def validateOptions_def
        check_def options_without_state_def options_without_token_and_state_def sample_options_def)

text \<open>
  Claim C10: when validation accepts the configuration, the state filter is a string
  whose lower-case form is one of the three recognized values, the run issues at least
  one listing request, and every listing request carries that string exactly as it was
  given; lowercasing is applied for the membership check only.
\<close>

theorem listing_state_verbatim:
  assumes "validateOptions opts = (out, Passed)"
  shows "\<exists>s n. state opts = Some s \<and> toLowerCase s \<in> set recognized_states \<and> 0 < n
           \<and> list_states (fst (githubClubhouseImport world opts)) = replicate n (Some s)"
proof -
  from validateOptions_Passed [OF assms] obtain s url where
    out: "out = []" and s: "state opts = Some s" "toLowerCase s \<in> set recognized_states"
    and url: "githubUrl opts = Some url" by blast
  obtain t r where f: "fetchGithubIssues world opts = (t, r)"
    by (cases "fetchGithubIssues world opts") blast
  from fetch_nonempty [OF f url] have ne: "0 < length t" by simp
  have "list_states (fst (githubClubhouseImport world opts)) = list_states t"
  proof (cases r)
    case (Inl err)
    with assms f out show ?thesis
      by (simp add: githubClubhouseImport_def list_states_append)
  next
    case (Inr issues)
    obtain t' imported where i: "importIssuesToClubhouse world opts issues = (t', imported)"
      by (cases "importIssuesToClubhouse world opts issues") blast
    with import_list_states [of world opts issues] have "list_states t' = []" by simp
    with Inr assms f out i show ?thesis
      by (simp add: githubClubhouseImport_def list_states_append)
  qed
  with fetch_list_states [OF f] s ne show ?thesis by auto
qed

theorem listing_state_verbatim_witness:
  "validateOptions options_upper_state = ([], Passed)
   \<and> toLowerCase ''OPEN'' \<noteq> ''OPEN''
   \<and> list_states (fst (githubClubhouseImport sample_world options_upper_state)) = [Some ''OPEN'']"
proof -
  have v: "validateOptions options_upper_state = ([], Passed)" by code_simp
  have s: "state options_upper_state = Some ''OPEN''"
    by (simp add: options_upper_state_def sample_options_def)
  have l: "length (list_states (fst (githubClubhouseImport sample_world options_upper_state))) = 1"
    by code_simp
  have low: "toLowerCase ''OPEN'' \<noteq> ''OPEN''" by code_simp
  from listing_state_verbatim [OF v, of sample_world] s obtain n where
    "list_states (fst (githubClubhouseImport sample_world options_upper_state)) = replicate n (Some ''OPEN'')"
    by auto
  with l have "list_states (fst (githubClubhouseImport sample_world options_upper_state)) = [Some ''OPEN'']"
    by simp
  with v low show ?thesis by simp
qed

subsection \<open>Claims about the fetcher\<close>

text \<open>
  Claim C5: for every sequence of items returned by the listing, the fetcher keeps
  exactly the items without a pull-request flag, and when the project resolves the
  stories sent to the bulk endpoint, batch after batch, are the mapped images of
  those issues, one story per issue and in the same order; their number is the number
  of listed items without the pull-request flag. This holds for the stories that a
  whole run of \<open>githubClubhouseImport\<close> with an accepted configuration submits.
\<close>

theorem pull_requests_filtered:
  assumes "githubUrl opts = Some url"
    and "paginate (githubToken opts) (octokitOptions opts url) 1
           (listForRepo world (githubToken opts) (octokitOptions opts url)) = (t, Inr data)"
    and "getProject world (clubhouseToken opts) (clubhouseProject opts) = Inr p"
  shows "\<exists>issues. fetchGithubIssues world opts = (t, Inr issues)
           \<and> issues = filter (\<lambda>i. pull_request i = None) data
           \<and> (\<forall>i\<in>set issues. pull_request i = None)
           \<and> concat (bulk_bodies (fst (importIssuesToClubhouse world opts issues)))
               = map (getStory (project_id p)) issues
           \<and> length (concat (bulk_bodies (fst (importIssuesToClubhouse world opts issues))))
               = length (filter (\<lambda>i. pull_request i = None) data)
           \<and> (validateOptions opts = (out, Passed) \<longrightarrow>
                concat (bulk_bodies (fst (githubClubhouseImport world opts)))
                  = map (getStory (project_id p)) (filter (\<lambda>i. pull_request i = None) data)
                \<and> length (concat (bulk_bodies (fst (githubClubhouseImport world opts))))
                  = length (filter (\<lambda>i. pull_request i = None) data))"
proof -
  let ?issues = "filter (\<lambda>i. pull_request i = None) data"
  from assms(1,2) have f: "fetchGithubIssues world opts = (t, Inr ?issues)"
    by (simp add: fetchGithubIssues_def)
  have b: "concat (bulk_bodies (fst (importIssuesToClubhouse world opts ?issues)))
      = map (getStory (project_id p)) ?issues"
    by (simp add: importIssues_bulk_bodies [OF assms(3)] chunk_concat)
  then have l: "length (concat (bulk_bodies (fst (importIssuesToClubhouse world opts ?issues))))
      = length ?issues" by simp
  have run: "concat (bulk_bodies (fst (githubClubhouseImport world opts)))
                  = map (getStory (project_id p)) ?issues"
    if v: "validateOptions opts = (out, Passed)"
  proof -
    obtain t' imported where i: "importIssuesToClubhouse world opts ?issues = (t', imported)"
      by (cases "importIssuesToClubhouse world opts ?issues") blast
    from validateOptions_Passed [OF v] have out: "out = []" by blast
    from v f i out have "fst (githubClubhouseImport world opts) =
        Spinner_start ''Retrieving issues from Github'' # t
          @ Spinner_succeed (''Retrieved '' @ show_nat (length ?issues) @ '' issues from Github'')
          # Spinner_start ''Importing issues into Clubhouse'' # t'
          @ [Spinner_succeed (''Imported '' @ show_count imported @ '' issues into Clubhouse'')]"
      by (simp add: githubClubhouseImport_def)
    then have "bulk_bodies (fst (githubClubhouseImport world opts)) = bulk_bodies t'"
      by (simp add: bulk_bodies_append fetch_bulk_bodies [OF f])
    with b i show ?thesis by simp
  qed
  then have "validateOptions opts = (out, Passed) \<longrightarrow>
      length (concat (bulk_bodies (fst (githubClubhouseImport world opts)))) = length ?issues"
    by simp
  with f b l run show ?thesis by simp
qed

theorem pull_requests_filtered_witness:
  "validateOptions sample_options = ([], Passed)
   \<and> paginate (githubToken sample_options) (octokitOptions sample_options ''takeshape/importer'') 1
     (listForRepo sample_world (githubToken sample_options)
        (octokitOptions sample_options ''takeshape/importer''))
     = ([Net_list_issues (Some ''gh-token'') (octokitOptions sample_options ''takeshape/importer'') 1],
        Inr [sample_issue 1, sample_pull_request 2, sample_issue 3])
   \<and> snd (fetchGithubIssues sample_world sample_options) = Inr [sample_issue 1, sample_issue 3]
   \<and> concat (bulk_bodies (fst (githubClubhouseImport sample_world sample_options)))
       = [getStory 42 (sample_issue 1), getStory 42 (sample_issue 3)]
   \<and> length (concat (bulk_bodies (fst (githubClubhouseImport sample_world sample_options)))) = 2"
proof -
  have v: "validateOptions sample_options = ([], Passed)" by code_simp
  have u: "githubUrl sample_options = Some ''takeshape/importer''" by (simp add: sample_options_def)
  have pg: "paginate (githubToken sample_options) (octokitOptions sample_options ''takeshape/importer'') 1
     (listForRepo sample_world (githubToken sample_options)
        (octokitOptions sample_options ''takeshape/importer''))
     = ([Net_list_issues (Some ''gh-token'') (octokitOptions sample_options ''takeshape/importer'') 1],
        Inr [sample_issue 1, sample_pull_request 2, sample_issue 3])" by code_simp
  have g: "getProject sample_world (clubhouseToken sample_options) (clubhouseProject sample_options)
       = Inr \<lparr>project_id = 42\<rparr>" by code_simp
  have fl: "filter (\<lambda>i. pull_request i = None) [sample_issue 1, sample_pull_request 2, sample_issue 3]
      = [sample_issue 1, sample_issue 3]"
    by (simp add: sample_issue_def sample_pull_request_def)
  from pull_requests_filtered [OF u pg g, of "[]"] obtain issues where
    f: "fetchGithubIssues sample_world sample_options =
          ([Net_list_issues (Some ''gh-token'') (octokitOptions sample_options ''takeshape/importer'') 1],
           Inr issues)"
    and i: "issues = filter (\<lambda>i. pull_request i = None) [sample_issue 1, sample_pull_request 2, sample_issue 3]"
    and r: "validateOptions sample_options = ([], Passed) \<longrightarrow>
              concat (bulk_bodies (fst (githubClubhouseImport sample_world sample_options)))
                = map (getStory (project_id \<lparr>project_id = 42\<rparr>))
                    (filter (\<lambda>i. pull_request i = None) [sample_issue 1, sample_pull_request 2, sample_issue 3])"
    by blast
  from i fl have i': "issues = [sample_issue 1, sample_issue 3]" by (simp only:)
  from f i' have s: "snd (fetchGithubIssues sample_world sample_options) = Inr [sample_issue 1, sample_issue 3]"
    by (simp only: snd_conv)
  from r v have "concat (bulk_bodies (fst (githubClubhouseImport sample_world sample_options)))
                = map (getStory (project_id \<lparr>project_id = 42\<rparr>))
                    (filter (\<lambda>i. pull_request i = None) [sample_issue 1, sample_pull_request 2, sample_issue 3])"
    by blast
  then have c: "concat (bulk_bodies (fst (githubClubhouseImport sample_world sample_options)))
       = [getStory 42 (sample_issue 1), getStory 42 (sample_issue 3)]"
    by (simp only: fl list.map project.simps)
  then have "length (concat (bulk_bodies (fst (githubClubhouseImport sample_world sample_options)))) = 2"
    by (simp only: list.size)
  with v pg s c show ?thesis by blast
qed

text \<open>
  Claim C8, as the claim states it, fails: there is no single error that carries both
  the repository identifier and the underlying message. The fetcher rejects with the
  library's error as it is, which does not name the repository, and the orchestrator
  writes two outputs: the spinner line names the repository and not the message, the
  red line gives the error and not the repository.
\<close>

theorem fetch_failure_counterexample:
  "fetchGithubIssues world_failing_listing sample_options =
       ([Net_list_issues (Some ''gh-token'') (octokitOptions sample_options ''takeshape/importer'') 1,
         Net_list_issues (Some ''gh-token'') (octokitOptions sample_options ''takeshape/importer'') 2],
        Inl (JsError ''HttpError'' ''Bad credentials''))
   \<and> githubClubhouseImport world_failing_listing sample_options =
       ([Spinner_start ''Retrieving issues from Github'',
         Net_list_issues (Some ''gh-token'') (octokitOptions sample_options ''takeshape/importer'') 1,
         Net_list_issues (Some ''gh-token'') (octokitOptions sample_options ''takeshape/importer'') 2,
         Spinner_fail (''Failed to fetch issues from takeshape/importer'' @ [CHR 0x0A]),
         Log_red ''HttpError: Bad credentials''],
        Completed)
   \<and> \<not> includes_str (''Failed to fetch issues from takeshape/importer'' @ [CHR 0x0A]) ''Bad credentials''
   \<and> \<not> includes_str ''HttpError: Bad credentials'' ''takeshape/importer''
   \<and> \<not> includes_str (error_toString (JsError ''HttpError'' ''Bad credentials'')) ''takeshape/importer''"
  by code_simp

text \<open>
  Claim C8, amended: in every run with an accepted configuration in which some page of
  the listing fails, the fetcher rejects with the underlying error unchanged and
  returns no issues, also when earlier pages were served; the orchestrator reports the
  failure in two outputs, a spinner failure line that carries the repository
  identifier followed by a red line with the text of the error, which contains the
  underlying message; and the listing requests are the only network requests of the
  run: nothing is mapped or submitted.
\<close>

theorem fetch_failure_two_outputs:
  assumes "validateOptions opts = (out, Passed)"
    and "githubUrl opts = Some url"
    and "listing_error (listForRepo world (githubToken opts) (octokitOptions opts url)) = Some err"
  shows "\<exists>t. fetchGithubIssues world opts = (t, Inl err)
           \<and> t \<noteq> [] \<and> filter is_list_issues t = t
           \<and> githubClubhouseImport world opts =
               (Spinner_start ''Retrieving issues from Github'' # t
                  @ [Spinner_fail (''Failed to fetch issues from '' @ url @ [CHR 0x0A]),
                     Log_red (error_toString err)],
                Completed)
           \<and> sublist url (''Failed to fetch issues from '' @ url @ [CHR 0x0A])
           \<and> sublist (error_message err) (error_toString err)
           \<and> filter is_network (fst (githubClubhouseImport world opts)) = t
           \<and> bulk_bodies (fst (githubClubhouseImport world opts)) = []"
proof -
  obtain t r where p: "paginate (githubToken opts) (octokitOptions opts url) 1
      (listForRepo world (githubToken opts) (octokitOptions opts url)) = (t, r)"
    by (cases "paginate (githubToken opts) (octokitOptions opts url) 1
      (listForRepo world (githubToken opts) (octokitOptions opts url))") blast
  from paginate_listing_error [OF p assms(3)] have r: "r = Inl err" .
  from p r assms(2) have f: "fetchGithubIssues world opts = (t, Inl err)"
    by (simp add: fetchGithubIssues_def)
  from validateOptions_Passed [OF assms(1)] have out: "out = []" by blast
  from assms(1,2) f out have run: "githubClubhouseImport world opts =
             (Spinner_start ''Retrieving issues from Github'' # t
                @ [Spinner_fail (''Failed to fetch issues from '' @ url @ [CHR 0x0A]),
                   Log_red (error_toString err)],
              Completed)"
    by (simp add: githubClubhouseImport_def)
  have ne: "t \<noteq> []" by (rule fetch_nonempty [OF f assms(2)])
  have net: "filter is_network (fst (githubClubhouseImport world opts)) = t"
    using run fetch_filters(1) [OF f] by simp
  have bb: "bulk_bodies (fst (githubClubhouseImport world opts)) = []"
    using run fetch_bulk_bodies [OF f] by (simp add: bulk_bodies_append)
  have su: "sublist url (''Failed to fetch issues from '' @ url @ [CHR 0x0A])"
    by (rule sublist_appendI)
  from f ne fetch_filters(2) [OF f] run su error_toString_message net bb show ?thesis
    by blast
qed

theorem fetch_failure_two_outputs_witness:
  "validateOptions sample_options = ([], Passed)
   \<and> githubUrl sample_options = Some ''takeshape/importer''
   \<and> listing_error (listForRepo world_failing_listing (githubToken sample_options)
          (octokitOptions sample_options ''takeshape/importer''))
       = Some (JsError ''HttpError'' ''Bad credentials'')
   \<and> snd (fetchGithubIssues world_failing_listing sample_options)
       = Inl (JsError ''HttpError'' ''Bad credentials'')
   \<and> bulk_bodies (fst (githubClubhouseImport world_failing_listing sample_options)) = []"
proof -
  have v: "validateOptions sample_options = ([], Passed)" by code_simp
  have u: "githubUrl sample_options = Some ''takeshape/importer''" by (simp add: sample_options_def)
  have e: "listing_error (listForRepo world_failing_listing (githubToken sample_options)
          (octokitOptions sample_options ''takeshape/importer''))
       = Some (JsError ''HttpError'' ''Bad credentials'')" by code_simp
  from fetch_failure_two_outputs [OF v u e] obtain t where
    "fetchGithubIssues world_failing_listing sample_options = (t, Inl (JsError ''HttpError'' ''Bad credentials''))"
    and "bulk_bodies (fst (githubClubhouseImport world_failing_listing sample_options)) = []"
    by blast
  with v u e show ?thesis by (simp only: snd_conv)
qed

subsection \<open>Claims about the submitter\<close>

text \<open>
  Claim C6: for every sequence of mapped records, the batches are non-empty slices of
  at most 10 records, batch number \<open>i\<close> is the slice of the 10 records from position
  \<open>10 * i\<close> on, and the concatenation of the batches in order is the original
  sequence. When the project resolves, the bodies of the bulk requests of a run are
  these batches in this order.
\<close>

theorem chunk_of_ten:
  "concat (chunk stories 10) = stories
   \<and> (\<forall>b\<in>set (chunk stories 10). b \<noteq> [] \<and> length b \<le> 10)
   \<and> (\<forall>i<length (chunk stories 10). chunk stories 10 ! i = take 10 (drop (i * 10) stories))
   \<and> (getProject world (clubhouseToken opts) (clubhouseProject opts) = Inr p \<longrightarrow>
        bulk_bodies (fst (importIssuesToClubhouse world opts issues))
          = chunk (map (getStory (project_id p)) issues) 10)"
  by (auto simp: chunk_concat chunk_nth importIssues_bulk_bodies dest: chunk_sizes)

theorem chunk_of_ten_witness:
  "chunk [1, 2, 3, 4, 5, 6, 7, 8, 9, 10, 11, 12 :: nat] 10 = [ [1, 2, 3, 4, 5, 6, 7, 8, 9, 10], [11, 12] ]
   \<and> concat (chunk [1, 2, 3, 4, 5, 6, 7, 8, 9, 10, 11, 12 :: nat] 10) = [1, 2, 3, 4, 5, 6, 7, 8, 9, 10, 11, 12]
   \<and> length [11, 12 :: nat] \<le> 10
   \<and> getProject sample_world (clubhouseToken sample_options) (clubhouseProject sample_options)
       = Inr \<lparr>project_id = 42\<rparr>
   \<and> map length (bulk_bodies (fst (importIssuesToClubhouse sample_world sample_options issues25)))
       = [10, 10, 5]"
proof -
  let ?xs = "[1, 2, 3, 4, 5, 6, 7, 8, 9, 10, 11, 12 :: nat]"
  have c: "chunk ?xs 10 = [ [1, 2, 3, 4, 5, 6, 7, 8, 9, 10], [11, 12] ]" by code_simp
  have g: "getProject sample_world (clubhouseToken sample_options) (clubhouseProject sample_options)
       = Inr \<lparr>project_id = 42\<rparr>" by code_simp
  have l: "map length (chunk (map (getStory 42) issues25) 10) = [10, 10, 5]" by code_simp
  note t = chunk_of_ten [of ?xs sample_world sample_options "\<lparr>project_id = 42\<rparr>" issues25]
  from t have "concat (chunk ?xs 10) = ?xs" by blast
  moreover from t c have "length [11, 12 :: nat] \<le> 10" by simp
  moreover from t g have "bulk_bodies (fst (importIssuesToClubhouse sample_world sample_options issues25))
      = chunk (map (getStory 42) issues25) 10" by simp
  ultimately show ?thesis using c g l by simp
qed

text \<open>
  Claim C9: for the empty sequence of issues the submitter issues no bulk-create
  request, and when the project resolves the returned count is 0.
\<close>

theorem import_empty:
  "filter is_bulk_create (fst (importIssuesToClubhouse world opts [])) = []
   \<and> (getProject world (clubhouseToken opts) (clubhouseProject opts) = Inr p \<longrightarrow>
        importIssuesToClubhouse world opts [] =
          ([Net_get_project (clubhouseToken opts) (clubhouseProject opts)], Some 0))"
  by (cases "getProject world (clubhouseToken opts) (clubhouseProject opts)")
     (simp_all add: importIssuesToClubhouse_def chunk_Nil project_not_found_def)

theorem import_empty_witness:
  "getProject sample_world (clubhouseToken sample_options) (clubhouseProject sample_options)
     = Inr \<lparr>project_id = 42\<rparr>
   \<and> importIssuesToClubhouse sample_world sample_options [] =
       ([Net_get_project (Some ''ch-token'') (Some ''42'')], Some 0)"
proof -
  have g: "getProject sample_world (clubhouseToken sample_options) (clubhouseProject sample_options)
       = Inr \<lparr>project_id = 42\<rparr>" by code_simp
  from import_empty [of sample_world sample_options "\<lparr>project_id = 42\<rparr>"] g show ?thesis
    by (simp add: sample_options_def)
qed

text \<open>
  Claim C1 fails on the code. With 25 issues the three batches hold 10, 10 and 5
  stories and all three are submitted; the destination creates the first and the third
  and rejects the second. The handler of the rejected batch raises a ReferenceError
  instead of logging, so the function logs that the project could not be found and
  returns \<open>undefined\<close>, where the claim expects the count 15.
\<close>

theorem import_25_second_batch_rejected:
  "map length (chunk (map (getStory 42) issues25) 10) = [10, 10, 5]
   \<and> map (\<lambda>b. case bulk world_rejecting_issue_11 (Some ''ch-token'') b of
                 Created added \<Rightarrow> Some (length added) | _ \<Rightarrow> None)
        (chunk (map (getStory 42) issues25) 10) = [Some 10, None, Some 5]
   \<and> importIssuesToClubhouse world_rejecting_issue_11 sample_options issues25 =
       (Net_get_project (Some ''ch-token'') (Some ''42'')
          # map (Net_bulk_create (Some ''ch-token'')) (chunk (map (getStory 42) issues25) 10)
          @ [Log_red ''Clubhouse Project ID 42 could not be found''],
        None)"
  by code_simp

subsection \<open>Claims about the orchestrator\<close>

text \<open>
  Claim C2, as the claim states it, fails: the project is looked up after the issues
  have been fetched. In the sample world with an unknown project identifier the run
  sends the listing request first, then the project lookup, and its last line reports
  \<open>undefined\<close> imported issues.
\<close>

theorem unresolved_project_counterexample:
  "getProject sample_world (clubhouseToken options_unknown_project) (clubhouseProject options_unknown_project)
     = Inl (JsError ''Error'' ''Not Found'')
   \<and> githubClubhouseImport sample_world options_unknown_project =
      ([Spinner_start ''Retrieving issues from Github'',
        Net_list_issues (Some ''gh-token'')
          \<lparr>rq_owner = Some ''takeshape'', rq_repo = Some ''importer'', rq_per_page = 100,
           rq_state = Some ''open''\<rparr> 1,
        Spinner_succeed ''Retrieved 2 issues from Github'',
        Spinner_start ''Importing issues into Clubhouse'',
        Net_get_project (Some ''ch-token'') (Some ''999''),
        Log_red ''Clubhouse Project ID 999 could not be found'',
        Spinner_succeed ''Imported undefined issues into Clubhouse''],
       Completed)"
  by code_simp

text \<open>
  Claim C2, amended: in every run with an accepted configuration in which the fetch
  succeeds and the destination project identifier fails to resolve, exactly one
  failure message is logged, which names the project identifier; no bulk-create
  request is made; and the fetcher has been invoked before the project lookup: the
  network requests of the run are the listing requests followed by the one lookup.
\<close>

theorem unresolved_project_after_fetch:
  assumes "validateOptions opts = (out, Passed)"
    and "fetchGithubIssues world opts = (t, Inr issues)"
    and "getProject world (clubhouseToken opts) (clubhouseProject opts) = Inl e"
  shows "filter is_log_red (fst (githubClubhouseImport world opts)) = [project_not_found opts]
         \<and> filter is_network (fst (githubClubhouseImport world opts)) =
             t @ [Net_get_project (clubhouseToken opts) (clubhouseProject opts)]
         \<and> t \<noteq> [] \<and> filter is_list_issues t = t
         \<and> filter is_bulk_create (fst (githubClubhouseImport world opts)) = []
         \<and> snd (githubClubhouseImport world opts) = Completed"
proof -
  from validateOptions_Passed [OF assms(1)] obtain url where
    out: "out = []" and url: "githubUrl opts = Some url" by blast
  from assms out have run: "githubClubhouseImport world opts =
      (Spinner_start ''Retrieving issues from Github'' # t
         @ Spinner_succeed (''Retrieved '' @ show_nat (length issues) @ '' issues from Github'')
         # Spinner_start ''Importing issues into Clubhouse''
         # [Net_get_project (clubhouseToken opts) (clubhouseProject opts), project_not_found opts]
         @ [Spinner_succeed (''Imported '' @ show_count None @ '' issues into Clubhouse'')],
       Completed)"
    by (simp add: githubClubhouseImport_def importIssues_unresolved)
  from fetch_nonempty [OF assms(2) url] have ne: "t \<noteq> []" .
  from run ne fetch_filters [OF assms(2)] show ?thesis
    by (simp add: project_not_found_def)
qed

theorem unresolved_project_after_fetch_witness:
  "validateOptions options_unknown_project = ([], Passed)
   \<and> getProject sample_world (clubhouseToken options_unknown_project) (clubhouseProject options_unknown_project)
       = Inl (JsError ''Error'' ''Not Found'')
   \<and> filter is_log_red (fst (githubClubhouseImport sample_world options_unknown_project))
       = [Log_red ''Clubhouse Project ID 999 could not be found'']
   \<and> filter is_network (fst (githubClubhouseImport sample_world options_unknown_project))
       = [Net_list_issues (Some ''gh-token'') (octokitOptions options_unknown_project ''takeshape/importer'') 1,
          Net_get_project (Some ''ch-token'') (Some ''999'')]"
proof -
  have v: "validateOptions options_unknown_project = ([], Passed)" by code_simp
  have f: "fetchGithubIssues sample_world options_unknown_project =
     ([Net_list_issues (Some ''gh-token'') (octokitOptions options_unknown_project ''takeshape/importer'') 1],
      Inr [sample_issue 1, sample_issue 3])" by code_simp
  have g: "getProject sample_world (clubhouseToken options_unknown_project) (clubhouseProject options_unknown_project)
       = Inl (JsError ''Error'' ''Not Found'')" by code_simp
  have p: "project_not_found options_unknown_project = Log_red ''Clubhouse Project ID 999 could not be found''"
    by code_simp
  have c: "clubhouseToken options_unknown_project = Some ''ch-token''"
     "clubhouseProject options_unknown_project = Some ''999''"
    by (simp_all add: options_unknown_project_def sample_options_def)
  from unresolved_project_after_fetch [OF v f g] v g show ?thesis
    by (simp only: p c) simp
qed

end
